theory Spec2Isabelle
  imports Main "HOL-Library.Sublist"
begin

section \<open>Base Horizon: the script \<^verbatim>\<open>src/app/base-horizon.ts\<close>\<close>

text \<open>
  The script keeps two module variables, \<^verbatim>\<open>active\<close> and \<^verbatim>\<open>session\<close>, and wires four
  buttons to handlers that call a wallet and an RPC client. The embedding below keeps
  the module variables and the DOM properties the handlers touch in one record, turns
  every \<^verbatim>\<open>await\<close> into a cut between two functions (the code before the suspension and
  the code after it, which receives what the awaited promise settled with), and every
  \<^verbatim>\<open>throw\<close> into the left summand of a sum.

  Strings are sequences of UTF-8 bytes; numbers of type \<^verbatim>\<open>bigint\<close> are naturals.
\<close>

subsection \<open>Values of the platform\<close>

text \<open>
  A thrown value, as the handlers' \<^verbatim>\<open>catch (e: any)\<close> sees it through
  \<^verbatim>\<open>e?.message ?? String(e)\<close>: either it has a \<^verbatim>\<open>message\<close> that is neither null nor
  undefined (every \<^verbatim>\<open>new Error(m)\<close>), or it is shown by its string conversion.
\<close>

datatype Thrown = Error string | Other string

text \<open>
  The values of type \<^verbatim>\<open>number\<close> that \<^verbatim>\<open>parseInt\<close> can return: \<open>NaN\<close>, the two infinities,
  negative zero, and \<open>Num i\<close>, the finite double whose value is the integer \<open>i\<close> (with
  \<open>Num 0\<close> for positive zero).
\<close>

datatype Number = NaN | Infinity | NegInfinity | NegZero | Num int

text \<open>Which of the two promises given to \<^verbatim>\<open>Promise.all\<close> settles first.\<close>

datatype Race = LeftFirst | RightFirst

text \<open>
  \<^verbatim>\<open>Promise.all([p, q])\<close>: fulfilled with both values when both are fulfilled, rejected
  with the reason of the promise that rejects first otherwise.
\<close>

fun Promise_all :: "Race \<Rightarrow> Thrown + 'a \<Rightarrow> Thrown + 'b \<Rightarrow> Thrown + ('a \<times> 'b)" where
  "Promise_all r (Inr a) (Inr b) = Inr (a, b)"
| "Promise_all r (Inl e) (Inr b) = Inl e"
| "Promise_all r (Inr a) (Inl e) = Inl e"
| "Promise_all r (Inl e) (Inl e') = Inl (if r = LeftFirst then e else e')"

subsubsection \<open>\<^verbatim>\<open>parseInt(s, 16)\<close>\<close>

text \<open>
  The white space that \<^verbatim>\<open>parseInt\<close> skips at the start of its argument (ECMAScript's
  WhiteSpace and LineTerminator), each code point in UTF-8.
\<close>

definition whiteSpace :: "string list" where
  "whiteSpace =
     [[CHR 0x09], [CHR 0x0A], [CHR 0x0B], [CHR 0x0C], [CHR 0x0D], [CHR 0x20],
      [CHR 0xC2, CHR 0xA0],
      [CHR 0xE1, CHR 0x9A, CHR 0x80],
      [CHR 0xE2, CHR 0x80, CHR 0x80], [CHR 0xE2, CHR 0x80, CHR 0x81],
      [CHR 0xE2, CHR 0x80, CHR 0x82], [CHR 0xE2, CHR 0x80, CHR 0x83],
      [CHR 0xE2, CHR 0x80, CHR 0x84], [CHR 0xE2, CHR 0x80, CHR 0x85],
      [CHR 0xE2, CHR 0x80, CHR 0x86], [CHR 0xE2, CHR 0x80, CHR 0x87],
      [CHR 0xE2, CHR 0x80, CHR 0x88], [CHR 0xE2, CHR 0x80, CHR 0x89],
      [CHR 0xE2, CHR 0x80, CHR 0x8A],
      [CHR 0xE2, CHR 0x80, CHR 0xA8], [CHR 0xE2, CHR 0x80, CHR 0xA9],
      [CHR 0xE2, CHR 0x80, CHR 0xAF],
      [CHR 0xE2, CHR 0x81, CHR 0x9F],
      [CHR 0xE3, CHR 0x80, CHR 0x80],
      [CHR 0xEF, CHR 0xBB, CHR 0xBF]]"

definition leadingSpace :: "string \<Rightarrow> nat" where
  \<comment> \<open>the number of bytes of the white space character \<open>s\<close> starts with, 0 when none\<close>
  "leadingSpace s = (case find (\<lambda>w. prefix w s) whiteSpace of None \<Rightarrow> 0 | Some w \<Rightarrow> length w)"

function trimStart :: "string \<Rightarrow> string" where
  "trimStart s = (if leadingSpace s = 0 then s else trimStart (drop (leadingSpace s) s))"
  by pat_completeness auto
termination
proof (relation "measure length")
  show "wf (measure length)" by simp
next
  fix s :: string
  assume "leadingSpace s \<noteq> 0"
  moreover have "leadingSpace s \<le> length s"
    by (auto simp: leadingSpace_def find_Some_iff prefix_def split: option.splits)
  ultimately show "(drop (leadingSpace s) s, s) \<in> measure length" by simp
qed

declare trimStart.simps [simp del]

definition hexDigit :: "char \<Rightarrow> nat option" where
  "hexDigit c =
     (let n = (of_char c :: nat) in
      if 48 \<le> n \<and> n \<le> 57 then Some (n - 48)
      else if 65 \<le> n \<and> n \<le> 70 then Some (n - 55)
      else if 97 \<le> n \<and> n \<le> 102 then Some (n - 87)
      else None)"

definition hexValue :: "string \<Rightarrow> nat" where
  "hexValue z = foldl (\<lambda>a c. 16 * a + (case hexDigit c of None \<Rightarrow> 0 | Some d \<Rightarrow> d)) 0 z"

text \<open>
  The conversion of a positive integer to a Number: the integer itself below \<open>2\<^sup>5\<^sup>3\<close>;
  above, the nearest multiple of \<open>2\<^sup>e\<close> that has a 53-bit quotient, the even quotient when
  two are equally near; \<open>None\<close> when that is \<open>2\<^sup>1\<^sup>0\<^sup>2\<^sup>4\<close> or more, where the Number is an
  infinity.
\<close>

fun bitLength :: "nat \<Rightarrow> nat" where
  "bitLength n = (if n = 0 then 0 else Suc (bitLength (n div 2)))"

declare bitLength.simps [simp del]

definition toDouble :: "nat \<Rightarrow> nat option" where
  "toDouble n =
     (if n < 2 ^ 53 then Some n
      else (let e = bitLength n - 53;
                q = n div 2 ^ e;
                r = n mod 2 ^ e;
                q = (if 2 ^ e < 2 * r \<or> (2 * r = 2 ^ e \<and> odd q) then q + 1 else q)
            in if 2 ^ 1024 \<le> q * 2 ^ e then None else Some (q * 2 ^ e)))"

definition numberOf :: "bool \<Rightarrow> nat \<Rightarrow> Number" where
  \<comment> \<open>the Number for the integer \<open>m\<close>, negated when \<open>negative\<close>\<close>
  "numberOf negative m =
     (if m = 0 then (if negative then NegZero else Num 0)
      else (case toDouble m of
              None \<Rightarrow> if negative then NegInfinity else Infinity
            | Some v \<Rightarrow> Num (if negative then - int v else int v)))"

definition parseInt16 :: "string \<Rightarrow> Number" where
  "parseInt16 inputString =
     (let S = trimStart inputString;
          negative = (S \<noteq> [] \<and> hd S = CHR ''-'');
          S = (if S \<noteq> [] \<and> (hd S = CHR ''+'' \<or> hd S = CHR ''-'') then tl S else S);
          S = (if prefix ''0x'' S \<or> prefix ''0X'' S then drop 2 S else S);
          Z = takeWhile (\<lambda>c. hexDigit c \<noteq> None) S
      in if Z = [] then NaN else numberOf negative (hexValue Z))"

subsubsection \<open>Conversion to strings in template literals\<close>

fun showNat :: "nat \<Rightarrow> string" where
  "showNat n =
     (if n < 10 then [''0123456789'' ! n]
      else showNat (n div 10) @ [''0123456789'' ! (n mod 10)])"

declare showNat.simps [simp del]

text \<open>
  The libraries and engine behaviour the script relies on and does not define: viem's
  \<^verbatim>\<open>isAddress\<close> and \<^verbatim>\<open>formatEther\<close>, the engine's text for a finite Number beyond \<open>2\<^sup>5\<^sup>3\<close>
  (where the decimal digits of the integer are no longer what is printed), and the message of
  the TypeError it raises when \<^verbatim>\<open>session.chainId\<close> is read while \<^verbatim>\<open>session\<close> is null.
\<close>

record Lib =
  isAddress :: "string \<Rightarrow> bool"
  formatEther :: "nat \<Rightarrow> string"
  showLargeNumber :: "int \<Rightarrow> string"
  nullReadMessage :: string

definition showNumber :: "Lib \<Rightarrow> Number \<Rightarrow> string" where
  "showNumber lib x =
     (case x of
        NaN \<Rightarrow> ''NaN''
      | Infinity \<Rightarrow> ''Infinity''
      | NegInfinity \<Rightarrow> ''-Infinity''
      | NegZero \<Rightarrow> ''0''
      | Num i \<Rightarrow>
          if \<bar>i\<bar> \<le> 2 ^ 53 then (if i < 0 then ''-'' else '''') @ showNat (nat \<bar>i\<bar>)
          else showLargeNumber lib i)"

subsection \<open>The network registry\<close>

datatype Chain = base | baseSepolia

record Network =
  chain :: Chain
  chainId :: nat
  rpc :: string
  explorer :: string
  label :: string

definition NETWORKS :: "Network list" where
  "NETWORKS =
     [\<lparr>chain = base, chainId = 8453, rpc = ''https://mainnet.base.org'',
       explorer = ''https://basescan.org'', label = ''Base Mainnet''\<rparr>,
      \<lparr>chain = baseSepolia, chainId = 84532, rpc = ''https://sepolia.base.org'',
       explorer = ''https://sepolia.basescan.org'', label = ''Base Sepolia''\<rparr>]"

text \<open>
  The right-hand side of line 144,
  \<^verbatim>\<open>active.chainId === 84532 ? NETWORKS[0] : NETWORKS[1]\<close>, as a function of \<^verbatim>\<open>active\<close>.
\<close>

definition other :: "Network \<Rightarrow> Network" where
  "other current = (if chainId current = 84532 then NETWORKS ! 0 else NETWORKS ! 1)"

definition APP_name :: string where
  "APP_name = ''Base Horizon (Built for Base)''"

definition APP_logo :: string where
  "APP_logo = ''https://base.org/favicon.ico''"

subsection \<open>Collaborators\<close>

text \<open>
  What \<^verbatim>\<open>client()\<close> (lines 52 to 57) builds from \<^verbatim>\<open>active\<close>, and what
  \<^verbatim>\<open>sdk.makeWeb3Provider(active.rpc, active.chainId)\<close> (lines 60 to 65) is built from.
  Both are values: a later assignment to \<^verbatim>\<open>active\<close> does not reach them.
\<close>

record Client =
  client_chain :: Chain
  transport :: string

record Provider =
  appName :: string
  appLogoUrl :: string
  jsonRpcUrl :: string
  defaultChainId :: nat

text \<open>The calls the script makes on its collaborators, each with the object it is made on.\<close>

datatype Request =
    eth_requestAccounts Provider
  | eth_chainId Provider
  | getBlockNumber Client
  | getBalance Client string
  | getBlock Client
  | estimateFeesPerGas Client

text \<open>The fields of viem's block and fee estimate that \<^verbatim>\<open>readPulse\<close> reads.\<close>

record Block =
  block_number :: nat
  block_timestamp :: nat
  block_gasUsed :: nat

record Fees =
  fees_maxFeePerGas :: "nat option"
  fees_maxPriorityFeePerGas :: "nat option"

subsection \<open>State\<close>

record Session =
  address :: string
  session_chainId :: Number

record Summary =
  block :: nat
  balance :: nat

record Pulse =
  number :: nat
  timestamp :: nat
  gasUsed :: nat
  maxFeePerGas :: "nat option"
  maxPriorityFeePerGas :: "nat option"

text \<open>
  The module variables \<^verbatim>\<open>active\<close> and \<^verbatim>\<open>session\<close>, the properties of the DOM elements the
  handlers read and write, and \<open>requests\<close>, the calls made on the collaborators so far
  (a history the script itself does not keep).
\<close>

record App =
  active :: Network
  session :: "Session option"
  btnPulse_disabled :: bool
  btnAddr_disabled :: bool
  addrInput_value :: string
  out_textContent :: string
  requests :: "Request list"

definition ellipsis :: string where
  \<comment> \<open>U+2026\<close>
  "ellipsis = [CHR 0xE2, CHR 0x80, CHR 0xA6]"

fun joinLines :: "string list \<Rightarrow> string" where
  "joinLines [] = []"
| "joinLines [l] = l"
| "joinLines (l # ls) = l @ [CHR 0x0A] @ joinLines ls"

definition render :: "string list \<Rightarrow> App \<Rightarrow> App" where
  "render lines st = st\<lparr>out_textContent := joinLines lines\<rparr>"

definition client :: "App \<Rightarrow> Client" where
  "client st = \<lparr>client_chain = chain (active st), transport = rpc (active st)\<rparr>"

definition call :: "Request \<Rightarrow> App \<Rightarrow> App" where
  "call r st = st\<lparr>requests := requests st @ [r]\<rparr>"

subsection \<open>The asynchronous functions\<close>

text \<open>
  \<^verbatim>\<open>connectWallet\<close> (lines 59 to 72) suspends twice. \<open>accounts\<close> is what
  \<^verbatim>\<open>eth_requestAccounts\<close> settled with (\<open>None\<close> for null or undefined), \<open>chainIdHex\<close> what
  \<^verbatim>\<open>eth_chainId\<close> settled with.
\<close>

definition connectWallet_start :: "App \<Rightarrow> Provider \<times> App" where
  "connectWallet_start st =
     (let provider = \<lparr>appName = APP_name, appLogoUrl = APP_logo,
                       jsonRpcUrl = rpc (active st), defaultChainId = chainId (active st)\<rparr>
      in (provider, call (eth_requestAccounts provider) st))"

definition connectWallet_accounts ::
  "Provider \<Rightarrow> Thrown + string list option \<Rightarrow> App \<Rightarrow> (Thrown + string) \<times> App" where
  "connectWallet_accounts provider accounts st =
     (case accounts of
        Inl e \<Rightarrow> (Inl e, st)
      | Inr None \<Rightarrow> (Inl (Error ''No address returned from wallet''), st)
      | Inr (Some []) \<Rightarrow> (Inl (Error ''No address returned from wallet''), st)
      | Inr (Some (a # _)) \<Rightarrow>
          if a = [] then (Inl (Error ''No address returned from wallet''), st)
          else (Inr a, call (eth_chainId provider) st))"

definition connectWallet_chainId :: "string \<Rightarrow> Thrown + string \<Rightarrow> Thrown + Session" where
  "connectWallet_chainId a chainIdHex =
     (case chainIdHex of
        Inl e \<Rightarrow> Inl e
      | Inr h \<Rightarrow> Inr \<lparr>address = a, session_chainId = parseInt16 h\<rparr>)"

text \<open>The whole of \<^verbatim>\<open>connectWallet\<close>, given both answers of the wallet.\<close>

definition connectWallet ::
  "Thrown + string list option \<Rightarrow> Thrown + string \<Rightarrow> App \<Rightarrow> (Thrown + Session) \<times> App" where
  "connectWallet accounts chainIdHex st =
     (case connectWallet_start st of
        (provider, st0) \<Rightarrow>
          (case connectWallet_accounts provider accounts st0 of
             (Inl e, st1) \<Rightarrow> (Inl e, st1)
           | (Inr a, st1) \<Rightarrow> (connectWallet_chainId a chainIdHex, st1)))"

text \<open>
  \<^verbatim>\<open>readSummary\<close> (lines 74 to 81): the code up to the \<^verbatim>\<open>await\<close>, which builds the client
  and makes both calls on it, the code after it, and the whole.
\<close>

definition readSummary_start :: "string \<Rightarrow> App \<Rightarrow> App" where
  "readSummary_start a st =
     (let c = client st in call (getBalance c a) (call (getBlockNumber c) st))"

definition readSummary_settle :: "Race \<Rightarrow> Thrown + nat \<Rightarrow> Thrown + nat \<Rightarrow> Thrown + Summary" where
  "readSummary_settle r blockNumber bal =
     (case Promise_all r blockNumber bal of
        Inl e \<Rightarrow> Inl e
      | Inr (b, v) \<Rightarrow> Inr \<lparr>block = b, balance = v\<rparr>)"

definition readSummary ::
  "Race \<Rightarrow> Thrown + nat \<Rightarrow> Thrown + nat \<Rightarrow> string \<Rightarrow> App \<Rightarrow> (Thrown + Summary) \<times> App" where
  "readSummary r blockNumber bal a st =
     (readSummary_settle r blockNumber bal, readSummary_start a st)"

text \<open>\<^verbatim>\<open>readPulse\<close> (lines 83 to 96).\<close>

definition readPulse_start :: "App \<Rightarrow> App" where
  "readPulse_start st =
     (let c = client st in call (estimateFeesPerGas c) (call (getBlock c) st))"

definition readPulse_settle :: "Race \<Rightarrow> Thrown + Block \<Rightarrow> Thrown + Fees \<Rightarrow> Thrown + Pulse" where
  "readPulse_settle r blk fees =
     (case Promise_all r blk fees of
        Inl e \<Rightarrow> Inl e
      | Inr (b, f) \<Rightarrow>
          Inr \<lparr>number = block_number b, timestamp = block_timestamp b,
               gasUsed = block_gasUsed b, maxFeePerGas = fees_maxFeePerGas f,
               maxPriorityFeePerGas = fees_maxPriorityFeePerGas f\<rparr>)"

definition readPulse ::
  "Race \<Rightarrow> Thrown + Block \<Rightarrow> Thrown + Fees \<Rightarrow> App \<Rightarrow> (Thrown + Pulse) \<times> App" where
  "readPulse r blk fees st = (readPulse_settle r blk fees, readPulse_start st)"

text \<open>
  \<^verbatim>\<open>readBalance\<close> (lines 98 to 101): it throws, or makes its call and returns the promise
  of that call, so that it settles with what \<^verbatim>\<open>getBalance\<close> settles with.
\<close>

definition readBalance_start :: "Lib \<Rightarrow> string \<Rightarrow> App \<Rightarrow> (Thrown + unit) \<times> App" where
  "readBalance_start lib addr st =
     (if \<not> isAddress lib addr then (Inl (Error ''Invalid address''), st)
      else (Inr (), call (getBalance (client st) addr) st))"

definition readBalance :: "Lib \<Rightarrow> Thrown + nat \<Rightarrow> string \<Rightarrow> App \<Rightarrow> (Thrown + nat) \<times> App" where
  "readBalance lib bal addr st =
     (case readBalance_start lib addr st of
        (Inl e, st1) \<Rightarrow> (Inl e, st1)
      | (Inr _, st1) \<Rightarrow> (bal, st1))"

text \<open>Stand-ins for the libraries, for evaluating the handlers on concrete inputs.\<close>

definition exampleLib :: Lib where
  "exampleLib =
     \<lparr>isAddress = (\<lambda>s. length s = 42 \<and> take 2 s = ''0x'' \<and> (\<forall>c \<in> set (drop 2 s). hexDigit c \<noteq> None)),
      formatEther = (\<lambda>wei. showNat wei @ ''e-18''),
      showLargeNumber = (\<lambda>i. ''1e+21''),
      nullReadMessage = ''Cannot read properties of null (reading 'chainId')''\<rparr>"

definition exampleAddress :: string where
  "exampleAddress = ''0x89787BDAd2f00b91c54FD832a38DcD909B64EF9a''"

subsection \<open>The handlers\<close>

text \<open>
  Code that runs inside a handler's \<^verbatim>\<open>try\<close> gives the state it leaves and either what it
  threw or its value; \<open>tryCatch\<close> is the handler's \<^verbatim>\<open>catch\<close> clause (lines 168 to 170,
  187 to 189 and 205 to 207).
\<close>

definition errorMessage :: "Thrown \<Rightarrow> string" where
  "errorMessage e = (case e of Error m \<Rightarrow> m | Other s \<Rightarrow> s)"

definition tryCatch :: "(Thrown + 'a) \<times> App \<Rightarrow> App" where
  "tryCatch r =
     (case r of
        (Inl e, st) \<Rightarrow> render [''Error: '' @ errorMessage e] st
      | (Inr _, st) \<Rightarrow> st)"

text \<open>\<^verbatim>\<open>btnToggle.onclick\<close> (lines 143 to 149).\<close>

definition btnToggle_onclick :: "App \<Rightarrow> App" where
  "btnToggle_onclick st =
     (let st = st\<lparr>active := other (active st)\<rparr>;
          st = st\<lparr>session := None\<rparr>;
          st = st\<lparr>btnPulse_disabled := True\<rparr>;
          st = st\<lparr>btnAddr_disabled := True\<rparr>
      in render [''Network switched to '' @ label (active st) @ ''. Reconnect wallet.''] st)"

text \<open>
  \<^verbatim>\<open>btnConnect.onclick\<close> (lines 151 to 171), cut at its three suspensions: the two inside
  \<^verbatim>\<open>connectWallet\<close> and the one inside \<^verbatim>\<open>readSummary\<close>.
\<close>

definition btnConnect_click :: "App \<Rightarrow> Provider \<times> App" where
  "btnConnect_click st = connectWallet_start (render [''Connecting wallet'' @ ellipsis] st)"

definition btnConnect_chainId :: "string \<Rightarrow> Thrown + string \<Rightarrow> App \<Rightarrow> (Thrown + unit) \<times> App" where
  "btnConnect_chainId a chainIdHex st =
     (case connectWallet_chainId a chainIdHex of
        Inl e \<Rightarrow> (Inl e, st)
      | Inr s \<Rightarrow> (Inr (), readSummary_start (address s) (st\<lparr>session := Some s\<rparr>)))"

definition btnConnect_summary ::
  "Lib \<Rightarrow> Race \<Rightarrow> Thrown + nat \<Rightarrow> Thrown + nat \<Rightarrow> App \<Rightarrow> (Thrown + unit) \<times> App" where
  "btnConnect_summary lib r blockNumber bal st =
     (case readSummary_settle r blockNumber bal of
        Inl e \<Rightarrow> (Inl e, st)
      | Inr info \<Rightarrow>
          (let st = st\<lparr>btnPulse_disabled := False\<rparr>;
               st = st\<lparr>btnAddr_disabled := False\<rparr>
           in case session st of
                None \<Rightarrow> (Inl (Error (nullReadMessage lib)), st)
              | Some s \<Rightarrow>
                  (Inr (),
                   render
                     [''Connected'',
                      ''Network: '' @ label (active st),
                      ''chainId: '' @ showNumber lib (session_chainId s),
                      ''Address: '' @ address s,
                      ''ETH balance: '' @ formatEther lib (balance info) @ '' ETH'',
                      ''Latest block: '' @ showNat (block info),
                      ''Explorer: '' @ explorer (active st) @ ''/address/'' @ address s]
                     st)))"

text \<open>
  The body of the \<^verbatim>\<open>try\<close> when no other handler runs while this one is suspended
  (lines 153 to 167 as they are written), and the handler. The arguments after \<open>lib\<close>
  are what the wallet and the RPC node answer.
\<close>

definition btnConnect_try ::
  "Lib \<Rightarrow> Thrown + string list option \<Rightarrow> Thrown + string \<Rightarrow>
   Race \<Rightarrow> Thrown + nat \<Rightarrow> Thrown + nat \<Rightarrow> App \<Rightarrow> (Thrown + unit) \<times> App" where
  "btnConnect_try lib accounts chainIdHex r blockNumber bal st =
     (case connectWallet accounts chainIdHex (render [''Connecting wallet'' @ ellipsis] st) of
        (Inl e, st1) \<Rightarrow> (Inl e, st1)
      | (Inr s, st1) \<Rightarrow>
          btnConnect_summary lib r blockNumber bal
            (readSummary_start (address s) (st1\<lparr>session := Some s\<rparr>)))"

definition btnConnect_onclick ::
  "Lib \<Rightarrow> Thrown + string list option \<Rightarrow> Thrown + string \<Rightarrow>
   Race \<Rightarrow> Thrown + nat \<Rightarrow> Thrown + nat \<Rightarrow> App \<Rightarrow> App" where
  "btnConnect_onclick lib accounts chainIdHex r blockNumber bal st =
     tryCatch (btnConnect_try lib accounts chainIdHex r blockNumber bal st)"

text \<open>
  The same handler when the user clicks the toggle while \<^verbatim>\<open>eth_requestAccounts\<close> is
  pending: the toggle handler runs between the first and the second piece, nothing else
  differs.
\<close>

definition btnConnect_toggled ::
  "Lib \<Rightarrow> Thrown + string list option \<Rightarrow> Thrown + string \<Rightarrow>
   Race \<Rightarrow> Thrown + nat \<Rightarrow> Thrown + nat \<Rightarrow> App \<Rightarrow> App" where
  "btnConnect_toggled lib accounts chainIdHex r blockNumber bal st =
     tryCatch
       (case btnConnect_click st of
          (provider, st0) \<Rightarrow>
            (case connectWallet_accounts provider accounts (btnToggle_onclick st0) of
               (Inl e, st1) \<Rightarrow> (Inl e, st1)
             | (Inr a, st1) \<Rightarrow>
                 (case btnConnect_chainId a chainIdHex st1 of
                    (Inl e, st2) \<Rightarrow> (Inl e, st2)
                  | (Inr _, st2) \<Rightarrow> btnConnect_summary lib r blockNumber bal st2)))"

text \<open>\<^verbatim>\<open>btnPulse.onclick\<close> (lines 173 to 190).\<close>

definition showFee :: "nat option \<Rightarrow> string" where
  \<comment> \<open>\<^verbatim>\<open>fee?.toString() ?? "n/a"\<close>\<close>
  "showFee fee = (case fee of None \<Rightarrow> ''n/a'' | Some v \<Rightarrow> showNat v)"

definition btnPulse_click :: "App \<Rightarrow> App" where
  "btnPulse_click st = readPulse_start (render [''Scanning horizon'' @ ellipsis] st)"

definition btnPulse_settle ::
  "Race \<Rightarrow> Thrown + Block \<Rightarrow> Thrown + Fees \<Rightarrow> App \<Rightarrow> (Thrown + unit) \<times> App" where
  "btnPulse_settle r blk fees st =
     (case readPulse_settle r blk fees of
        Inl e \<Rightarrow> (Inl e, st)
      | Inr p \<Rightarrow>
          (Inr (),
           render
             [''Horizon Pulse (read-only)'',
              ''Network: '' @ label (active st),
              ''Block: '' @ showNat (number p),
              ''Timestamp: '' @ showNat (timestamp p),
              ''Gas used: '' @ showNat (gasUsed p),
              ''maxFeePerGas: '' @ showFee (maxFeePerGas p),
              ''maxPriorityFeePerGas: '' @ showFee (maxPriorityFeePerGas p),
              ''Explorer: '' @ explorer (active st) @ ''/block/'' @ showNat (number p)]
             st))"

definition btnPulse_try ::
  "Race \<Rightarrow> Thrown + Block \<Rightarrow> Thrown + Fees \<Rightarrow> App \<Rightarrow> (Thrown + unit) \<times> App" where
  "btnPulse_try r blk fees st = btnPulse_settle r blk fees (btnPulse_click st)"

definition btnPulse_onclick :: "Race \<Rightarrow> Thrown + Block \<Rightarrow> Thrown + Fees \<Rightarrow> App \<Rightarrow> App" where
  "btnPulse_onclick r blk fees st = tryCatch (btnPulse_try r blk fees st)"

text \<open>
  \<^verbatim>\<open>btnAddr.onclick\<close> (lines 192 to 208). \<open>target\<close> is
  \<^verbatim>\<open>addrInput.value || session?.address\<close>, \<open>None\<close> for undefined; \<^verbatim>\<open>!target\<close> holds of
  undefined and of the empty string.
\<close>

definition target :: "App \<Rightarrow> string option" where
  "target st =
     (if addrInput_value st \<noteq> [] then Some (addrInput_value st)
      else (case session st of None \<Rightarrow> None | Some s \<Rightarrow> Some (address s)))"

definition btnAddr_read :: "Lib \<Rightarrow> string \<Rightarrow> App \<Rightarrow> (Thrown + string) \<times> App" where
  \<comment> \<open>lines 196 and 197 up to the suspension, for the target \<open>t\<close>\<close>
  "btnAddr_read lib t st =
     (case readBalance_start lib t (render [''Reading balance'' @ ellipsis] st) of
        (Inl e, st1) \<Rightarrow> (Inl e, st1)
      | (Inr _, st1) \<Rightarrow> (Inr t, st1))"

definition btnAddr_click :: "Lib \<Rightarrow> App \<Rightarrow> (Thrown + string) \<times> App" where
  "btnAddr_click lib st =
     (case target st of
        None \<Rightarrow> (Inl (Error ''No address provided''), st)
      | Some t \<Rightarrow>
          if t = [] then (Inl (Error ''No address provided''), st)
          else btnAddr_read lib t st)"

definition btnAddr_settle :: "Lib \<Rightarrow> string \<Rightarrow> Thrown + nat \<Rightarrow> App \<Rightarrow> (Thrown + unit) \<times> App" where
  "btnAddr_settle lib t bal st =
     (case bal of
        Inl e \<Rightarrow> (Inl e, st)
      | Inr v \<Rightarrow>
          (Inr (),
           render
             [''Address Balance'',
              ''Network: '' @ label (active st),
              ''Address: '' @ t,
              ''ETH balance: '' @ formatEther lib v @ '' ETH'',
              ''Explorer: '' @ explorer (active st) @ ''/address/'' @ t]
             st))"

definition btnAddr_try :: "Lib \<Rightarrow> Thrown + nat \<Rightarrow> App \<Rightarrow> (Thrown + unit) \<times> App" where
  "btnAddr_try lib bal st =
     (case btnAddr_click lib st of
        (Inl e, st1) \<Rightarrow> (Inl e, st1)
      | (Inr t, st1) \<Rightarrow> btnAddr_settle lib t bal st1)"

definition btnAddr_onclick :: "Lib \<Rightarrow> Thrown + nat \<Rightarrow> App \<Rightarrow> App" where
  "btnAddr_onclick lib bal st = tryCatch (btnAddr_try lib bal st)"

text \<open>
  The state \<^verbatim>\<open>mount()\<close> (lines 105 to 223) leaves, with \<^verbatim>\<open>active\<close> and \<^verbatim>\<open>session\<close> as lines
  31 and 103 initialise them.
\<close>

definition mount :: "Lib \<Rightarrow> App" where
  "mount lib =
     (let st = \<lparr>active = NETWORKS ! 1, session = None, btnPulse_disabled = True,
                btnAddr_disabled = True, addrInput_value = [], out_textContent = [],
                requests = []\<rparr>
      in render
           [''Ready.'',
            ''Active network: '' @ label (active st) @ '' (chainId ''
              @ showNumber lib (Num (int (chainId (active st)))) @ '')'',
            ''Connect wallet to begin.'']
           st)"

section \<open>Properties\<close>

subsection \<open>Helper facts\<close>

lemmas parseInt_defs = parseInt16_def trimStart.simps leadingSpace_def whiteSpace_def
  hexDigit_def hexValue_def numberOf_def toDouble_def

lemmas query_defs = readSummary_def readSummary_start_def readSummary_settle_def
  readPulse_def readPulse_start_def readPulse_settle_def readBalance_def readBalance_start_def
  call_def

lemmas handler_defs = tryCatch_def errorMessage_def render_def btnToggle_onclick_def
  btnConnect_click_def btnConnect_chainId_def btnConnect_summary_def btnConnect_try_def
  btnConnect_onclick_def btnPulse_click_def btnPulse_settle_def btnPulse_try_def
  btnPulse_onclick_def target_def btnAddr_read_def btnAddr_click_def btnAddr_settle_def
  btnAddr_try_def btnAddr_onclick_def

lemmas wallet_defs = connectWallet_def connectWallet_start_def connectWallet_accounts_def
  connectWallet_chainId_def

lemma bitLength_numeral [simp]:
  "bitLength 0 = 0"
  "bitLength (Suc 0) = 1"
  "bitLength (numeral (Num.Bit0 k)) = Suc (bitLength (numeral k))"
  "bitLength (numeral (Num.Bit1 k)) = Suc (bitLength (numeral k))"
  "bitLength (numeral Num.One) = 1"
  by (simp_all add: bitLength.simps [of "numeral (Num.Bit0 k)"] bitLength.simps [of "numeral (Num.Bit1 k)"]
      bitLength.simps [of 0] bitLength.simps [of "Suc 0"] bitLength.simps [of 1] numeral_Bit0_div_2 numeral_Bit1_div_2)

lemma whiteSpace_prefix_free:
  "x \<in> set whiteSpace \<Longrightarrow> w \<in> set whiteSpace \<Longrightarrow> prefix x w \<Longrightarrow> x = w"
proof -
  have "\<forall>x \<in> set whiteSpace. \<forall>w \<in> set whiteSpace. prefix x w \<longrightarrow> x = w"
    by (simp add: whiteSpace_def)
  then show "x \<in> set whiteSpace \<Longrightarrow> w \<in> set whiteSpace \<Longrightarrow> prefix x w \<Longrightarrow> x = w"
    by blast
qed

lemma whiteSpace_nonempty: "w \<in> set whiteSpace \<Longrightarrow> w \<noteq> []"
  by (auto simp: whiteSpace_def)

lemma leadingSpace_token:
  assumes "w \<in> set whiteSpace"
  shows "leadingSpace (w @ u) = length w"
proof -
  have "prefix w (w @ u)" by simp
  with assms have "\<exists>x \<in> set whiteSpace. prefix x (w @ u)" by blast
  then obtain x where f: "find (\<lambda>x. prefix x (w @ u)) whiteSpace = Some x"
    by (cases "find (\<lambda>x. prefix x (w @ u)) whiteSpace") (auto simp: find_None_iff)
  then have x: "x \<in> set whiteSpace" "prefix x (w @ u)"
    by (auto simp: find_Some_iff)
  have "prefix w (w @ u)" by simp
  with x(2) have "prefix x w \<or> prefix w x" by (rule prefix_same_cases)
  with x(1) assms have "x = w" by (auto dest: whiteSpace_prefix_free)
  with f show ?thesis by (simp add: leadingSpace_def)
qed

lemma leadingSpace_pos:
  assumes "leadingSpace s \<noteq> 0"
  shows "take (leadingSpace s) s \<in> set whiteSpace \<and> leadingSpace s \<le> length s"
proof -
  from assms obtain w where f: "find (\<lambda>x. prefix x s) whiteSpace = Some w"
    by (cases "find (\<lambda>x. prefix x s) whiteSpace") (auto simp: leadingSpace_def)
  then have "w \<in> set whiteSpace" "prefix w s" by (auto simp: find_Some_iff)
  moreover from f have "leadingSpace s = length w" by (simp add: leadingSpace_def)
  ultimately show ?thesis by (auto simp: prefix_def)
qed

lemma trimStart_tokens:
  "(\<forall>w \<in> set ws. w \<in> set whiteSpace) \<Longrightarrow> leadingSpace t = 0 \<Longrightarrow> trimStart (concat ws @ t) = t"
proof (induction ws)
  case Nil
  then show ?case by (simp add: trimStart.simps)
next
  case (Cons w ws)
  then have w: "w \<in> set whiteSpace" by simp
  then have "leadingSpace (w @ concat ws @ t) = length w" by (rule leadingSpace_token)
  moreover from w have "w \<noteq> []" by (rule whiteSpace_nonempty)
  ultimately have "trimStart (w @ concat ws @ t) = trimStart (concat ws @ t)"
    by (subst trimStart.simps) simp
  with Cons show ?case by simp
qed

lemma trimStart_decompose:
  "\<exists>ws. (\<forall>w \<in> set ws. w \<in> set whiteSpace) \<and> s = concat ws @ trimStart s
        \<and> leadingSpace (trimStart s) = 0"
proof (induction s rule: trimStart.induct)
  case (1 s)
  show ?case
  proof (cases "leadingSpace s = 0")
    case True
    then have "trimStart s = s" by (simp add: trimStart.simps)
    with True have "(\<forall>w \<in> set []. w \<in> set whiteSpace) \<and> s = concat [] @ trimStart s
        \<and> leadingSpace (trimStart s) = 0" by simp
    then show ?thesis by blast
  next
    case False
    let ?n = "leadingSpace s"
    from False have t: "trimStart s = trimStart (drop ?n s)" by (subst trimStart.simps) simp
    from 1 False obtain ws where ws: "\<forall>w \<in> set ws. w \<in> set whiteSpace"
      "drop ?n s = concat ws @ trimStart (drop ?n s)" "leadingSpace (trimStart (drop ?n s)) = 0"
      by blast
    from False have tk: "take ?n s \<in> set whiteSpace" using leadingSpace_pos by blast
    have "s = take ?n s @ drop ?n s" by simp
    with ws(2) have "s = concat (take ?n s # ws) @ trimStart (drop ?n s)" by simp
    with ws(1,3) tk t have "(\<forall>w \<in> set (take ?n s # ws). w \<in> set whiteSpace)
        \<and> s = concat (take ?n s # ws) @ trimStart s \<and> leadingSpace (trimStart s) = 0"
      by simp
    then show ?thesis by blast
  qed
qed


lemma parseInt16_grammar:
  assumes ws: "\<forall>w \<in> set ws. w \<in> set whiteSpace"
    and sg: "sg = [] \<or> sg = ''+'' \<or> sg = ''-''"
    and px: "px = [] \<or> px = ''0x'' \<or> px = ''0X''"
    and ds: "\<forall>c \<in> set ds. hexDigit c \<noteq> None"
    and rest: "rest = [] \<or> hexDigit (hd rest) = None"
    and c1: "leadingSpace (sg @ px @ ds @ rest) = 0"
    and c2: "sg = [] \<longrightarrow> \<not> prefix ''+'' (px @ ds @ rest) \<and> \<not> prefix ''-'' (px @ ds @ rest)"
    and c3: "px = [] \<longrightarrow> \<not> prefix ''0x'' (ds @ rest) \<and> \<not> prefix ''0X'' (ds @ rest)"
  shows "parseInt16 (concat ws @ sg @ px @ ds @ rest)
           = (if ds = [] then NaN else numberOf (sg = ''-'') (hexValue ds))"
proof -
  let ?T = "sg @ px @ ds @ rest"
  let ?U = "px @ ds @ rest"
  let ?V = "ds @ rest"
  have T: "trimStart (concat ws @ ?T) = ?T"
    using ws c1 by (rule trimStart_tokens)
  have neg: "(?T \<noteq> [] \<and> hd ?T = CHR ''-'') = (sg = ''-'')"
    using sg c2 by (cases ?U) auto
  have U: "(if ?T \<noteq> [] \<and> (hd ?T = CHR ''+'' \<or> hd ?T = CHR ''-'') then tl ?T else ?T) = ?U"
    using sg c2 by (cases ?U) auto
  have V: "(if prefix ''0x'' ?U \<or> prefix ''0X'' ?U then drop 2 ?U else ?U) = ?V"
    using px c3 by auto
  have "takeWhile (\<lambda>c. hexDigit c \<noteq> None) rest = []"
    using rest by (cases rest) auto
  with ds have Z: "takeWhile (\<lambda>c. hexDigit c \<noteq> None) ?V = ds"
    by (simp add: takeWhile_append2)
  show ?thesis
    unfolding parseInt16_def Let_def T neg U V Z ..
qed

lemma parseInt16_decompose:
  "\<exists>ws sg px ds rest.
      h = concat ws @ sg @ px @ ds @ rest
      \<and> (\<forall>w \<in> set ws. w \<in> set whiteSpace)
      \<and> (sg = [] \<or> sg = ''+'' \<or> sg = ''-'')
      \<and> (px = [] \<or> px = ''0x'' \<or> px = ''0X'')
      \<and> (\<forall>c \<in> set ds. hexDigit c \<noteq> None)
      \<and> (rest = [] \<or> hexDigit (hd rest) = None)
      \<and> leadingSpace (sg @ px @ ds @ rest) = 0
      \<and> (sg = [] \<longrightarrow> \<not> prefix ''+'' (px @ ds @ rest) \<and> \<not> prefix ''-'' (px @ ds @ rest))
      \<and> (px = [] \<longrightarrow> \<not> prefix ''0x'' (ds @ rest) \<and> \<not> prefix ''0X'' (ds @ rest))"
proof -
  obtain ws where ws: "\<forall>w \<in> set ws. w \<in> set whiteSpace" "h = concat ws @ trimStart h"
    "leadingSpace (trimStart h) = 0"
    using trimStart_decompose [of h] by blast
  let ?T = "trimStart h"
  obtain sg U where sg: "?T = sg @ U" "sg = [] \<or> sg = ''+'' \<or> sg = ''-''"
    "sg = [] \<longrightarrow> \<not> prefix ''+'' U \<and> \<not> prefix ''-'' U"
  proof (cases "prefix ''+'' ?T \<or> prefix ''-'' ?T")
    case True
    then obtain U where "?T = ''+'' @ U \<or> ?T = ''-'' @ U" by (auto simp: prefix_def)
    then show ?thesis using that [of _ U] by auto
  next
    case False
    then show ?thesis using that [of "[]" ?T] by simp
  qed
  obtain px V where px: "U = px @ V" "px = [] \<or> px = ''0x'' \<or> px = ''0X''"
    "px = [] \<longrightarrow> \<not> prefix ''0x'' V \<and> \<not> prefix ''0X'' V"
  proof (cases "prefix ''0x'' U \<or> prefix ''0X'' U")
    case True
    then obtain V where "U = ''0x'' @ V \<or> U = ''0X'' @ V" by (auto simp: prefix_def)
    then show ?thesis using that [of _ V] by auto
  next
    case False
    then show ?thesis using that [of "[]" U] by simp
  qed
  let ?P = "\<lambda>c. hexDigit c \<noteq> None"
  let ?ds = "takeWhile ?P V" and ?rest = "dropWhile ?P V"
  have V: "V = ?ds @ ?rest" by simp
  have d: "\<forall>c \<in> set ?ds. hexDigit c \<noteq> None" by (auto dest: set_takeWhileD)
  have r: "?rest = [] \<or> hexDigit (hd ?rest) = None"
  proof (cases "?rest = []")
    case True
    then show ?thesis by simp
  next
    case False
    then have "\<not> ?P (hd ?rest)" by (rule hd_dropWhile)
    then show ?thesis by simp
  qed
  have "h = concat ws @ sg @ px @ ?ds @ ?rest"
    using ws(2) sg(1) px(1) by simp
  moreover have "leadingSpace (sg @ px @ ?ds @ ?rest) = 0"
    using ws(3) sg(1) px(1) by simp
  moreover have "sg = [] \<longrightarrow> \<not> prefix ''+'' (px @ ?ds @ ?rest) \<and> \<not> prefix ''-'' (px @ ?ds @ ?rest)"
    using sg(3) px(1) by simp
  moreover have "px = [] \<longrightarrow> \<not> prefix ''0x'' (?ds @ ?rest) \<and> \<not> prefix ''0X'' (?ds @ ?rest)"
    using px(3) by simp
  ultimately show ?thesis using ws(1) sg(2) px(2) d r by blast
qed

lemma hexValue_replicate_f: "hexValue (replicate n (CHR ''f'')) = 16 ^ n - 1"
proof -
  have "foldl (\<lambda>a c. 16 * a + (case hexDigit c of None \<Rightarrow> 0 | Some d \<Rightarrow> d)) a
          (replicate n (CHR ''f'')) = (a + 1) * 16 ^ n - 1" for a :: nat
  proof (induction n arbitrary: a)
    case 0
    then show ?case by simp
  next
    case (Suc n)
    have "hexDigit (CHR ''f'') = Some 15" by (simp add: hexDigit_def)
    with Suc [of "16 * a + 15"] show ?case by (simp add: algebra_simps)
  qed
  from this [of 0] show ?thesis by (simp add: hexValue_def)
qed

lemma toDouble_max: "toDouble (2 ^ 1024 - 1) = None"
  by (simp add: toDouble_def)

lemma parseInt16_overflow: "parseInt16 (replicate 256 (CHR ''f'')) = Infinity"
proof -
  let ?ds = "replicate 256 (CHR ''f'')"
  have "(256::nat) = Suc 255" by simp
  then have c: "?ds = CHR ''f'' # replicate 255 (CHR ''f'')"
    by (simp only: replicate_Suc)
  have ne: "?ds \<noteq> []" by (simp add: c)
  have h: "\<forall>c \<in> set ?ds. hexDigit c \<noteq> None" by (simp add: hexDigit_def)
  have l: "leadingSpace ([] @ [] @ ?ds @ []) = 0"
    by (simp add: c leadingSpace_def whiteSpace_def)
  have "parseInt16 (concat [] @ [] @ [] @ ?ds @ []) = (if ?ds = [] then NaN else numberOf ([] = ''-'') (hexValue ?ds))"
    by (rule parseInt16_grammar) (use h l in \<open>simp_all add: c\<close>)
  with ne have "parseInt16 ?ds = numberOf False (hexValue ?ds)" by simp
  also have "hexValue ?ds = 2 ^ 1024 - 1"
    by (simp add: hexValue_replicate_f power_mult [symmetric, of 2 4 256, simplified])
  also have "numberOf False (2 ^ 1024 - 1) = Infinity"
    unfolding numberOf_def toDouble_max by simp
  finally show ?thesis .
qed

lemma numberOf_safe:
  "0 < m \<Longrightarrow> m < 2 ^ 53 \<Longrightarrow> numberOf negative m = Num (if negative then - int m else int m)"
  by (simp add: numberOf_def toDouble_def)

lemma parseInt16_examples:
  "parseInt16 ''0x14a34'' = Num 84532"
  "parseInt16 ''  -0X1F'' = Num (- 31)"
  "parseInt16 ''+abcdef'' = Num 11259375"
  "parseInt16 ''hello'' = NaN"
  "parseInt16 ''0x'' = NaN"
  "parseInt16 ''g1'' = NaN"
  "parseInt16 ''-0'' = NegZero"
  "parseInt16 ''0x20000000000001'' = Num 9007199254740992"
  by (simp_all add: parseInt_defs)

lemma Promise_all_cases:
  "(\<exists>a b. p = Inr a \<and> q = Inr b \<and> Promise_all r p q = Inr (a, b))
   \<or> (\<exists>e. Promise_all r p q = Inl e \<and> (p = Inl e \<or> q = Inl e))"
  by (cases p; cases q) auto

lemma exampleLib_isAddress: "isAddress exampleLib exampleAddress" "\<not> isAddress exampleLib ''nope''"
  by (simp_all add: exampleLib_def exampleAddress_def hexDigit_def)

lemma connectWallet_address_nonempty:
  "connectWallet accounts chainIdHex st = (Inr s, st') \<Longrightarrow> address s \<noteq> []"
  by (auto simp: wallet_defs Let_def split: sum.splits option.splits list.splits if_splits)

lemma btnConnect_try_segments:
  "btnConnect_try lib accounts chainIdHex r bn bal st =
     (case btnConnect_click st of
        (provider, st0) \<Rightarrow>
          (case connectWallet_accounts provider accounts st0 of
             (Inl e, st1) \<Rightarrow> (Inl e, st1)
           | (Inr a, st1) \<Rightarrow>
               (case btnConnect_chainId a chainIdHex st1 of
                  (Inl e, st2) \<Rightarrow> (Inl e, st2)
                | (Inr _, st2) \<Rightarrow> btnConnect_summary lib r bn bal st2)))"
  by (simp add: btnConnect_try_def btnConnect_click_def btnConnect_chainId_def wallet_defs Let_def
      split: sum.splits option.splits list.splits)

subsection \<open>The network toggle\<close>

text \<open>
  C7. The toggle is its own inverse on the registry: for each of the two entries \<open>n\<close> of
  \<open>NETWORKS\<close>, \<open>other (other n) = n\<close>, and \<open>other n\<close> is the entry of the registry that is
  not \<open>n\<close>.
\<close>

theorem other_involution:
  "\<forall>n \<in> set NETWORKS. other (other n) = n \<and> other n \<in> set NETWORKS \<and> other n \<noteq> n"
  by (simp add: NETWORKS_def other_def)

theorem other_involution_witness:
  "NETWORKS ! 1 \<in> set NETWORKS \<and> other (other (NETWORKS ! 1)) = NETWORKS ! 1
   \<and> other (NETWORKS ! 1) = NETWORKS ! 0"
proof -
  have m: "NETWORKS ! 1 \<in> set NETWORKS"
    by (simp add: NETWORKS_def)
  have "other (NETWORKS ! 1) = NETWORKS ! 0"
    by (simp add: NETWORKS_def other_def)
  with m other_involution [rule_format, OF m] show ?thesis by simp
qed

subsection \<open>The query layer\<close>

text \<open>
  C3. \<open>readSummary\<close> and \<open>readPulse\<close> each make exactly two calls on the RPC client, whatever
  the calls settle with, and fail as a unit: when both calls are fulfilled the result is
  built from both values; when either is rejected the function fails with the reason of
  one of the rejected calls and nothing of the other call's value is returned.
\<close>

theorem read_pair_all_or_nothing:
  "requests (snd (readSummary r bn bal a st))
     = requests st @ [getBlockNumber (client st), getBalance (client st) a]
   \<and> requests (snd (readPulse r blk fees st))
     = requests st @ [getBlock (client st), estimateFeesPerGas (client st)]
   \<and> (\<forall>b v. bn = Inr b \<and> bal = Inr v \<longrightarrow>
         fst (readSummary r bn bal a st) = Inr \<lparr>block = b, balance = v\<rparr>)
   \<and> (isl bn \<or> isl bal \<longrightarrow>
         (\<exists>e. fst (readSummary r bn bal a st) = Inl e \<and> (bn = Inl e \<or> bal = Inl e)))
   \<and> (\<forall>b f. blk = Inr b \<and> fees = Inr f \<longrightarrow>
         fst (readPulse r blk fees st)
           = Inr \<lparr>number = block_number b, timestamp = block_timestamp b,
                  gasUsed = block_gasUsed b, maxFeePerGas = fees_maxFeePerGas f,
                  maxPriorityFeePerGas = fees_maxPriorityFeePerGas f\<rparr>)
   \<and> (isl blk \<or> isl fees \<longrightarrow>
         (\<exists>e. fst (readPulse r blk fees st) = Inl e \<and> (blk = Inl e \<or> fees = Inl e)))"
proof (intro conjI)
  show "requests (snd (readSummary r bn bal a st))
     = requests st @ [getBlockNumber (client st), getBalance (client st) a]"
    by (simp add: query_defs Let_def client_def)
  show "requests (snd (readPulse r blk fees st))
     = requests st @ [getBlock (client st), estimateFeesPerGas (client st)]"
    by (simp add: query_defs Let_def client_def)
  show "\<forall>b v. bn = Inr b \<and> bal = Inr v \<longrightarrow>
         fst (readSummary r bn bal a st) = Inr \<lparr>block = b, balance = v\<rparr>"
    by (simp add: query_defs)
  show "isl bn \<or> isl bal \<longrightarrow>
         (\<exists>e. fst (readSummary r bn bal a st) = Inl e \<and> (bn = Inl e \<or> bal = Inl e))"
    using Promise_all_cases [of bn bal r] by (auto simp: query_defs)
  show "\<forall>b f. blk = Inr b \<and> fees = Inr f \<longrightarrow>
         fst (readPulse r blk fees st)
           = Inr \<lparr>number = block_number b, timestamp = block_timestamp b,
                  gasUsed = block_gasUsed b, maxFeePerGas = fees_maxFeePerGas f,
                  maxPriorityFeePerGas = fees_maxPriorityFeePerGas f\<rparr>"
    by (simp add: query_defs)
  show "isl blk \<or> isl fees \<longrightarrow>
         (\<exists>e. fst (readPulse r blk fees st) = Inl e \<and> (blk = Inl e \<or> fees = Inl e))"
    using Promise_all_cases [of blk fees r] by (auto simp: query_defs)
qed

theorem read_pair_all_or_nothing_witness:
  "fst (readSummary LeftFirst (Inr 1000) (Inr 25) exampleAddress (mount exampleLib))
     = Inr \<lparr>block = 1000, balance = 25\<rparr>
   \<and> isl (Inl (Error ''rpc down'') :: Thrown + nat)
   \<and> fst (readSummary LeftFirst (Inl (Error ''rpc down'')) (Inr 25) exampleAddress (mount exampleLib))
     = Inl (Error ''rpc down'')
   \<and> isl (Inl (Other ''timeout'') :: Thrown + Fees)
   \<and> fst (readPulse RightFirst (Inr \<lparr>block_number = 1, block_timestamp = 2, block_gasUsed = 3\<rparr>)
            (Inl (Other ''timeout'')) (mount exampleLib))
     = Inl (Other ''timeout'')"
  using read_pair_all_or_nothing [where r = LeftFirst and bn = "Inr 1000" and bal = "Inr 25"
      and a = exampleAddress and st = "mount exampleLib"]
    read_pair_all_or_nothing [where r = LeftFirst and bn = "Inl (Error ''rpc down'')"
      and bal = "Inr 25" and a = exampleAddress and st = "mount exampleLib"]
    read_pair_all_or_nothing [where r = RightFirst
      and blk = "Inr \<lparr>block_number = 1, block_timestamp = 2, block_gasUsed = 3\<rparr>"
      and fees = "Inl (Other ''timeout'')" and st = "mount exampleLib"]
  by simp

text \<open>
  C4. \<open>readSummary\<close> and \<open>readPulse\<close> build their client from \<open>active\<close> once, before the
  suspension, and make both calls on that client. A toggle that runs while the handler is
  suspended moves \<open>active\<close> to the other network, and the two calls in the history are
  still the ones made on the client of the network that was active at the start.
\<close>

theorem reads_target_captured_client:
  "client st = \<lparr>client_chain = chain (active st), transport = rpc (active st)\<rparr>
   \<and> requests (readSummary_start a st)
       = requests st @ [getBlockNumber (client st), getBalance (client st) a]
   \<and> requests (readPulse_start st)
       = requests st @ [getBlock (client st), estimateFeesPerGas (client st)]
   \<and> requests (tryCatch (btnConnect_summary lib r bn bal
                  (btnToggle_onclick (readSummary_start a st))))
       = requests st @ [getBlockNumber (client st), getBalance (client st) a]
   \<and> requests (tryCatch (btnPulse_settle r blk fees (btnToggle_onclick (btnPulse_click st))))
       = requests st @ [getBlock (client st), estimateFeesPerGas (client st)]
   \<and> (active st \<in> set NETWORKS \<longrightarrow>
        client (btnToggle_onclick (readSummary_start a st)) \<noteq> client st
        \<and> client (btnToggle_onclick (btnPulse_click st)) \<noteq> client st)"
proof (intro conjI)
  show "client st = \<lparr>client_chain = chain (active st), transport = rpc (active st)\<rparr>"
    by (simp add: client_def)
  show "requests (readSummary_start a st)
       = requests st @ [getBlockNumber (client st), getBalance (client st) a]"
    by (simp add: query_defs Let_def client_def)
  show "requests (readPulse_start st)
       = requests st @ [getBlock (client st), estimateFeesPerGas (client st)]"
    by (simp add: query_defs Let_def client_def)
  show "requests (tryCatch (btnConnect_summary lib r bn bal
                  (btnToggle_onclick (readSummary_start a st))))
       = requests st @ [getBlockNumber (client st), getBalance (client st) a]"
    by (simp add: handler_defs query_defs Let_def client_def split: sum.splits)
  show "requests (tryCatch (btnPulse_settle r blk fees (btnToggle_onclick (btnPulse_click st))))
       = requests st @ [getBlock (client st), estimateFeesPerGas (client st)]"
    by (simp add: handler_defs query_defs Let_def client_def split: sum.splits)
  show "active st \<in> set NETWORKS \<longrightarrow>
        client (btnToggle_onclick (readSummary_start a st)) \<noteq> client st
        \<and> client (btnToggle_onclick (btnPulse_click st)) \<noteq> client st"
    by (auto simp: handler_defs query_defs Let_def client_def NETWORKS_def other_def)
qed

theorem reads_target_captured_client_witness:
  "active (mount exampleLib) \<in> set NETWORKS
   \<and> active (btnToggle_onclick (readSummary_start exampleAddress (mount exampleLib))) = NETWORKS ! 0
   \<and> requests (tryCatch (btnConnect_summary exampleLib LeftFirst (Inr 1000) (Inr 25)
                  (btnToggle_onclick (readSummary_start exampleAddress (mount exampleLib)))))
       = [getBlockNumber \<lparr>client_chain = baseSepolia, transport = ''https://sepolia.base.org''\<rparr>,
          getBalance \<lparr>client_chain = baseSepolia, transport = ''https://sepolia.base.org''\<rparr>
            exampleAddress]"
proof -
  have m: "active (mount exampleLib) = NETWORKS ! 1"
    by (simp add: mount_def render_def Let_def)
  have r: "requests (mount exampleLib) = []"
    by (simp add: mount_def render_def Let_def)
  have t: "active (btnToggle_onclick (readSummary_start exampleAddress (mount exampleLib))) = NETWORKS ! 0"
    by (simp add: btnToggle_onclick_def render_def Let_def query_defs m other_def NETWORKS_def)
  from reads_target_captured_client [of "mount exampleLib" exampleAddress exampleLib LeftFirst
      "Inr 1000" "Inr 25"] m r t
  show ?thesis by (simp add: NETWORKS_def)
qed

text \<open>
  C5. For an address that \<open>isAddress\<close> rejects, \<open>readBalance\<close> fails with the error
  \<open>Invalid address\<close> and leaves the state, hence the history of calls, as it was; for an
  address that it accepts, \<open>readBalance\<close> makes exactly one call, \<open>getBalance\<close> on the
  client of the active network, and settles with what that call settles with.
\<close>

theorem readBalance_validates_first:
  "(\<not> isAddress lib addr \<longrightarrow>
      readBalance lib bal addr st = (Inl (Error ''Invalid address''), st))
   \<and> (isAddress lib addr \<longrightarrow>
      readBalance lib bal addr st
        = (bal, st\<lparr>requests := requests st @ [getBalance (client st) addr]\<rparr>))"
  by (simp add: query_defs)

theorem readBalance_validates_first_witness:
  "\<not> isAddress exampleLib ''nope''
   \<and> requests (snd (readBalance exampleLib (Inr 7) ''nope'' (mount exampleLib))) = []
   \<and> fst (readBalance exampleLib (Inr 7) ''nope'' (mount exampleLib)) = Inl (Error ''Invalid address'')
   \<and> isAddress exampleLib exampleAddress
   \<and> requests (snd (readBalance exampleLib (Inr 7) exampleAddress (mount exampleLib)))
       = [getBalance \<lparr>client_chain = baseSepolia, transport = ''https://sepolia.base.org''\<rparr> exampleAddress]"
  using readBalance_validates_first [of exampleLib "''nope''" "Inr 7" "mount exampleLib"]
    readBalance_validates_first [of exampleLib exampleAddress "Inr 7" "mount exampleLib"]
    exampleLib_isAddress
  by (simp add: mount_def render_def client_def NETWORKS_def Let_def)

subsection \<open>The balance check\<close>

text \<open>
  C6. The check-balance handler reads the balance of the text of the input field when
  that text is not empty, and of the address of the Session otherwise; with an empty input
  and no Session it fails with the error \<open>No address provided\<close> (MissingAddress), which
  the handler renders. The last conjunct says what reading the balance of a valid target
  does: one \<open>getBalance\<close> call for that target.
\<close>

theorem btnAddr_target_choice:
  "(addrInput_value st \<noteq> [] \<longrightarrow>
      btnAddr_click lib st = btnAddr_read lib (addrInput_value st) st)
   \<and> (addrInput_value st = [] \<and> session st = Some s \<and> address s \<noteq> [] \<longrightarrow>
      btnAddr_click lib st = btnAddr_read lib (address s) st)
   \<and> (addrInput_value st = [] \<and> session st = None \<longrightarrow>
      btnAddr_try lib bal st = (Inl (Error ''No address provided''), st)
      \<and> btnAddr_onclick lib bal st = render [''Error: No address provided''] st)
   \<and> (isAddress lib t \<longrightarrow>
      btnAddr_read lib t st
        = (Inr t, call (getBalance (client st) t) (render [''Reading balance'' @ ellipsis] st)))"
  by (simp add: handler_defs query_defs client_def)

theorem btnAddr_target_choice_witness:
  "fst (btnAddr_click exampleLib ((mount exampleLib)\<lparr>addrInput_value := exampleAddress\<rparr>))
     = Inr exampleAddress
   \<and> fst (btnAddr_click exampleLib
        ((mount exampleLib)\<lparr>session := Some \<lparr>address = exampleAddress, session_chainId = Num 84532\<rparr>\<rparr>))
     = Inr exampleAddress
   \<and> out_textContent (btnAddr_onclick exampleLib (Inr 7) (mount exampleLib))
     = ''Error: No address provided''"
proof -
  let ?s = "\<lparr>address = exampleAddress, session_chainId = Num 84532\<rparr>"
  let ?st1 = "(mount exampleLib)\<lparr>addrInput_value := exampleAddress\<rparr>"
  let ?st2 = "(mount exampleLib)\<lparr>session := Some ?s\<rparr>"
  have ne: "exampleAddress \<noteq> []" by (simp add: exampleAddress_def)
  have a: "addrInput_value ?st1 \<noteq> []" "addrInput_value ?st2 = []" "session ?st2 = Some ?s"
    "address ?s \<noteq> []" "addrInput_value (mount exampleLib) = []" "session (mount exampleLib) = None"
    using ne by (simp_all add: mount_def render_def Let_def)
  note v = exampleLib_isAddress(1)
  from btnAddr_target_choice [where st = ?st1 and lib = exampleLib and t = exampleAddress] a v
  have 1: "fst (btnAddr_click exampleLib ?st1) = Inr exampleAddress" by simp
  from btnAddr_target_choice [where st = ?st2 and lib = exampleLib and t = exampleAddress and s = ?s] a v
  have 2: "fst (btnAddr_click exampleLib ?st2) = Inr exampleAddress" by simp
  from btnAddr_target_choice [where st = "mount exampleLib" and lib = exampleLib and bal = "Inr 7"] a
  have 3: "out_textContent (btnAddr_onclick exampleLib (Inr 7) (mount exampleLib))
     = ''Error: No address provided''" by (simp add: render_def)
  from 1 2 3 show ?thesis by simp
qed

text \<open>
  C9. An address counts as provided when the input text is not empty. A non-empty input
  that \<open>isAddress\<close> rejects is the target whatever the Session is: the handler ends with
  the line \<open>Error: Invalid address\<close>, makes no call and changes nothing else. An empty
  input with a Session present is not an error: the handler reads and shows the balance
  of the Session's address.
\<close>

theorem btnAddr_provided_means_nonempty:
  "(addrInput_value st \<noteq> [] \<and> \<not> isAddress lib (addrInput_value st) \<longrightarrow>
      btnAddr_onclick lib bal st = st\<lparr>out_textContent := ''Error: Invalid address''\<rparr>)
   \<and> (addrInput_value st = [] \<and> session st = Some s \<and> address s \<noteq> []
        \<and> isAddress lib (address s) \<longrightarrow>
      requests (btnAddr_onclick lib bal st) = requests st @ [getBalance (client st) (address s)]
      \<and> (\<forall>v. bal = Inr v \<longrightarrow>
           out_textContent (btnAddr_onclick lib bal st)
             = joinLines
                 [''Address Balance'',
                  ''Network: '' @ label (active st),
                  ''Address: '' @ address s,
                  ''ETH balance: '' @ formatEther lib v @ '' ETH'',
                  ''Explorer: '' @ explorer (active st) @ ''/address/'' @ address s]))"
  by (auto simp: handler_defs query_defs client_def split: sum.splits)

theorem btnAddr_provided_means_nonempty_witness:
  "session ((mount exampleLib)\<lparr>session := Some \<lparr>address = exampleAddress, session_chainId = Num 84532\<rparr>,
                               addrInput_value := ''nope''\<rparr>)
     = Some \<lparr>address = exampleAddress, session_chainId = Num 84532\<rparr>
   \<and> isAddress exampleLib exampleAddress \<and> \<not> isAddress exampleLib ''nope''
   \<and> out_textContent (btnAddr_onclick exampleLib (Inr 7)
        ((mount exampleLib)\<lparr>session := Some \<lparr>address = exampleAddress, session_chainId = Num 84532\<rparr>,
                             addrInput_value := ''nope''\<rparr>))
     = ''Error: Invalid address''
   \<and> requests (btnAddr_onclick exampleLib (Inr 7)
        ((mount exampleLib)\<lparr>session := Some \<lparr>address = exampleAddress, session_chainId = Num 84532\<rparr>,
                             addrInput_value := ''nope''\<rparr>))
     = []
   \<and> requests (btnAddr_onclick exampleLib (Inr 7)
        ((mount exampleLib)\<lparr>session := Some \<lparr>address = exampleAddress, session_chainId = Num 84532\<rparr>\<rparr>))
     = [getBalance \<lparr>client_chain = baseSepolia, transport = ''https://sepolia.base.org''\<rparr>
          exampleAddress]"
proof -
  let ?s = "\<lparr>address = exampleAddress, session_chainId = Num 84532\<rparr>"
  let ?st1 = "(mount exampleLib)\<lparr>session := Some ?s, addrInput_value := ''nope''\<rparr>"
  let ?st2 = "(mount exampleLib)\<lparr>session := Some ?s\<rparr>"
  have ne: "exampleAddress \<noteq> []" by (simp add: exampleAddress_def)
  have a: "addrInput_value ?st1 = ''nope''" "session ?st1 = Some ?s" "requests ?st1 = []"
    "addrInput_value ?st2 = []" "session ?st2 = Some ?s" "requests ?st2 = []"
    "client ?st2 = \<lparr>client_chain = baseSepolia, transport = ''https://sepolia.base.org''\<rparr>"
    by (simp_all add: mount_def render_def Let_def client_def NETWORKS_def)
  note v = exampleLib_isAddress
  from btnAddr_provided_means_nonempty [where st = ?st1 and lib = exampleLib and bal = "Inr 7"] a v
  have 1: "btnAddr_onclick exampleLib (Inr 7) ?st1 = ?st1\<lparr>out_textContent := ''Error: Invalid address''\<rparr>"
    by simp
  from btnAddr_provided_means_nonempty [where st = ?st2 and lib = exampleLib and bal = "Inr 7" and s = ?s]
    a v ne
  have 2: "requests (btnAddr_onclick exampleLib (Inr 7) ?st2)
     = [getBalance \<lparr>client_chain = baseSepolia, transport = ''https://sepolia.base.org''\<rparr>
          exampleAddress]"
    by simp
  show ?thesis using a v by (simp add: 1 2)
qed

subsection \<open>The pulse\<close>

text \<open>
  C8. When both reads of the pulse are fulfilled and the fee estimate has neither
  \<open>maxFeePerGas\<close> nor \<open>maxPriorityFeePerGas\<close>, the handler does not fail (nothing is
  thrown inside its \<open>try\<close>) and the text it renders has the lines \<open>maxFeePerGas: n/a\<close>
  and \<open>maxPriorityFeePerGas: n/a\<close>.
\<close>

theorem pulse_absent_fees:
  "btnPulse_try r (Inr blk) (Inr \<lparr>fees_maxFeePerGas = None, fees_maxPriorityFeePerGas = None\<rparr>) st
     = (Inr (), btnPulse_onclick r (Inr blk)
                  (Inr \<lparr>fees_maxFeePerGas = None, fees_maxPriorityFeePerGas = None\<rparr>) st)
   \<and> out_textContent
       (btnPulse_onclick r (Inr blk)
          (Inr \<lparr>fees_maxFeePerGas = None, fees_maxPriorityFeePerGas = None\<rparr>) st)
     = joinLines
         [''Horizon Pulse (read-only)'',
          ''Network: '' @ label (active st),
          ''Block: '' @ showNat (block_number blk),
          ''Timestamp: '' @ showNat (block_timestamp blk),
          ''Gas used: '' @ showNat (block_gasUsed blk),
          ''maxFeePerGas: n/a'',
          ''maxPriorityFeePerGas: n/a'',
          ''Explorer: '' @ explorer (active st) @ ''/block/'' @ showNat (block_number blk)]"
  by (simp add: handler_defs query_defs showFee_def Let_def)

subsection \<open>Connecting\<close>

text \<open>
  C1, as the specification states it, does not hold: the handler assigns \<open>session\<close> as soon
  as \<open>connectWallet\<close> has returned (line 154), before \<open>readSummary\<close> is awaited. Starting
  from the state after \<open>mount\<close>, where there is no Session, a connect whose block-number
  read is rejected fails, renders the error line, and leaves the Session of the wallet's
  answer stored.
\<close>

theorem connect_failure_counterexample:
  "fst (btnConnect_try exampleLib (Inr (Some [exampleAddress])) (Inr ''0x14a34'') LeftFirst
          (Inl (Error ''rpc down'')) (Inr 25) (mount exampleLib))
     = Inl (Error ''rpc down'')
   \<and> out_textContent
        (btnConnect_onclick exampleLib (Inr (Some [exampleAddress])) (Inr ''0x14a34'') LeftFirst
          (Inl (Error ''rpc down'')) (Inr 25) (mount exampleLib))
     = ''Error: rpc down''
   \<and> session (mount exampleLib) = None
   \<and> session
        (btnConnect_onclick exampleLib (Inr (Some [exampleAddress])) (Inr ''0x14a34'') LeftFirst
          (Inl (Error ''rpc down'')) (Inr 25) (mount exampleLib))
     = Some \<lparr>address = exampleAddress, session_chainId = Num 84532\<rparr>"
proof -
  have p: "parseInt16 ''0x14a34'' = Num 84532"
    by (simp add: parseInt_defs)
  have ne: "exampleAddress \<noteq> []" by (simp add: exampleAddress_def)
  show ?thesis
    using ne by (simp add: wallet_defs handler_defs query_defs Let_def mount_def p)
qed

text \<open>
  C1, amended. A connect that fails inside \<open>connectWallet\<close> (the accounts request is
  rejected or gives no address, or the chain-id request is rejected) renders the error
  line and leaves the stored Session as it was before the action. A connect that fails in
  the summary read renders the error line as well, and the stored Session is then the one
  \<open>connectWallet\<close> returned.
\<close>

theorem connect_failure_session:
  "(fst (connectWallet accounts chainIdHex (render [''Connecting wallet'' @ ellipsis] st)) = Inl e
      \<longrightarrow> fst (btnConnect_try lib accounts chainIdHex r bn bal st) = Inl e
        \<and> session (btnConnect_onclick lib accounts chainIdHex r bn bal st) = session st
        \<and> out_textContent (btnConnect_onclick lib accounts chainIdHex r bn bal st)
            = ''Error: '' @ errorMessage e)
   \<and> (fst (connectWallet accounts chainIdHex (render [''Connecting wallet'' @ ellipsis] st)) = Inr s
        \<and> readSummary_settle r bn bal = Inl e
      \<longrightarrow> fst (btnConnect_try lib accounts chainIdHex r bn bal st) = Inl e
        \<and> session (btnConnect_onclick lib accounts chainIdHex r bn bal st) = Some s
        \<and> out_textContent (btnConnect_onclick lib accounts chainIdHex r bn bal st)
            = ''Error: '' @ errorMessage e)"
proof -
  have w: "session (snd (connectWallet accounts chainIdHex st')) = session st'" for st'
    by (simp add: wallet_defs call_def Let_def split: sum.splits option.splits list.splits)
  obtain res st1 where c: "connectWallet accounts chainIdHex (render [''Connecting wallet'' @ ellipsis] st) = (res, st1)"
    by (cases "connectWallet accounts chainIdHex (render [''Connecting wallet'' @ ellipsis] st)")
  from w [of "render [''Connecting wallet'' @ ellipsis] st"] c
  have s1: "session st1 = session st" by (simp add: render_def)
  show ?thesis
    using c s1
    by (auto simp: btnConnect_onclick_def btnConnect_try_def btnConnect_summary_def tryCatch_def
        render_def query_defs Let_def)
qed

theorem connect_failure_session_witness:
  "fst (connectWallet (Inl (Other ''User denied account access'')) (Inr ''0x14a34'')
         (render [''Connecting wallet'' @ ellipsis]
            ((mount exampleLib)\<lparr>session := Some \<lparr>address = exampleAddress, session_chainId = Num 8453\<rparr>\<rparr>)))
     = Inl (Other ''User denied account access'')
   \<and> session (btnConnect_onclick exampleLib (Inl (Other ''User denied account access''))
        (Inr ''0x14a34'') LeftFirst (Inr 1000) (Inr 25)
        ((mount exampleLib)\<lparr>session := Some \<lparr>address = exampleAddress, session_chainId = Num 8453\<rparr>\<rparr>))
     = Some \<lparr>address = exampleAddress, session_chainId = Num 8453\<rparr>
   \<and> out_textContent (btnConnect_onclick exampleLib (Inl (Other ''User denied account access''))
        (Inr ''0x14a34'') LeftFirst (Inr 1000) (Inr 25)
        ((mount exampleLib)\<lparr>session := Some \<lparr>address = exampleAddress, session_chainId = Num 8453\<rparr>\<rparr>))
     = ''Error: User denied account access''
   \<and> readSummary_settle RightFirst (Inr 1000) (Inl (Error ''HTTP request failed.''))
     = Inl (Error ''HTTP request failed.'')
   \<and> session (btnConnect_onclick exampleLib (Inr (Some [exampleAddress])) (Inr ''0x2105'') RightFirst
        (Inr 1000) (Inl (Error ''HTTP request failed.'')) (mount exampleLib))
     = Some \<lparr>address = exampleAddress, session_chainId = Num 8453\<rparr>
   \<and> out_textContent (btnConnect_onclick exampleLib (Inr (Some [exampleAddress])) (Inr ''0x2105'')
        RightFirst (Inr 1000) (Inl (Error ''HTTP request failed.'')) (mount exampleLib))
     = ''Error: HTTP request failed.''"
proof -
  let ?s = "\<lparr>address = exampleAddress, session_chainId = Num 8453\<rparr>"
  let ?st = "(mount exampleLib)\<lparr>session := Some ?s\<rparr>"
  let ?e1 = "Other ''User denied account access''"
  let ?e2 = "Error ''HTTP request failed.''"
  have p: "parseInt16 ''0x2105'' = Num 8453"
    by (simp add: parseInt_defs)
  have ne: "exampleAddress \<noteq> []" by (simp add: exampleAddress_def)
  have h1: "fst (connectWallet (Inl ?e1) (Inr ''0x14a34'')
              (render [''Connecting wallet'' @ ellipsis] ?st)) = Inl ?e1"
    by (simp add: wallet_defs Let_def)
  have h2: "fst (connectWallet (Inr (Some [exampleAddress])) (Inr ''0x2105'')
              (render [''Connecting wallet'' @ ellipsis] (mount exampleLib))) = Inr ?s"
    using ne by (simp add: wallet_defs Let_def p)
  have h3: "readSummary_settle RightFirst (Inr 1000) (Inl ?e2) = Inl ?e2"
    by (simp add: readSummary_settle_def)
  have s0: "session ?st = Some ?s" by simp
  from connect_failure_session [where accounts = "Inl ?e1" and chainIdHex = "Inr ''0x14a34''"
      and st = ?st and e = ?e1 and lib = exampleLib and r = LeftFirst and bn = "Inr 1000"
      and bal = "Inr 25"] h1 s0
  have 1: "session (btnConnect_onclick exampleLib (Inl ?e1) (Inr ''0x14a34'') LeftFirst (Inr 1000)
             (Inr 25) ?st) = Some ?s
     \<and> out_textContent (btnConnect_onclick exampleLib (Inl ?e1) (Inr ''0x14a34'') LeftFirst
             (Inr 1000) (Inr 25) ?st) = ''Error: User denied account access''"
    by (simp add: errorMessage_def)
  from connect_failure_session [where accounts = "Inr (Some [exampleAddress])"
      and chainIdHex = "Inr ''0x2105''" and st = "mount exampleLib" and e = ?e2 and s = ?s
      and lib = exampleLib and r = RightFirst and bn = "Inr 1000" and bal = "Inl ?e2"] h2 h3
  have 2: "session (btnConnect_onclick exampleLib (Inr (Some [exampleAddress])) (Inr ''0x2105'')
             RightFirst (Inr 1000) (Inl ?e2) (mount exampleLib)) = Some ?s
     \<and> out_textContent (btnConnect_onclick exampleLib (Inr (Some [exampleAddress]))
             (Inr ''0x2105'') RightFirst (Inr 1000) (Inl ?e2) (mount exampleLib))
         = ''Error: HTTP request failed.''"
    by (simp add: errorMessage_def)
  from h1 h3 1 2 show ?thesis by simp
qed

text \<open>
  C10. \<open>connectWallet\<close> returns the first account with \<open>parseInt16\<close> of whatever string
  the wallet gave as chain id, without looking at the parsed value: whenever the first
  account is a non-empty string the call succeeds, and with both summary reads fulfilled
  the handler completes and stores that Session. What is stored is fixed for every
  string: a string is, in exactly the way the second and third conjunct describe, white
  space, an optional sign, an optional \<open>0x\<close> or \<open>0X\<close>, a longest run \<open>ds\<close> of hexadecimal
  digits and a rest; the chain id is \<open>NaN\<close> when \<open>ds\<close> is empty (the string is not
  parseable hexadecimal) and the Number for the signed value of \<open>ds\<close> otherwise, which
  below \<open>2\<^sup>5\<^sup>3\<close> is that integer. The last conjuncts are values at particular strings.
\<close>

theorem connectWallet_chainId_unvalidated:
  "(a \<noteq> [] \<longrightarrow>
      fst (connectWallet (Inr (Some (a # others))) (Inr h) st)
        = Inr \<lparr>address = a, session_chainId = parseInt16 h\<rparr>
      \<and> fst (btnConnect_try lib (Inr (Some (a # others))) (Inr h) r (Inr b) (Inr v) st) = Inr ()
      \<and> session (btnConnect_onclick lib (Inr (Some (a # others))) (Inr h) r (Inr b) (Inr v) st)
        = Some \<lparr>address = a, session_chainId = parseInt16 h\<rparr>)
   \<and> ((\<forall>w \<in> set ws. w \<in> set whiteSpace)
        \<and> (sg = [] \<or> sg = ''+'' \<or> sg = ''-'')
        \<and> (px = [] \<or> px = ''0x'' \<or> px = ''0X'')
        \<and> (\<forall>c \<in> set ds. hexDigit c \<noteq> None)
        \<and> (rest = [] \<or> hexDigit (hd rest) = None)
        \<and> leadingSpace (sg @ px @ ds @ rest) = 0
        \<and> (sg = [] \<longrightarrow> \<not> prefix ''+'' (px @ ds @ rest) \<and> \<not> prefix ''-'' (px @ ds @ rest))
        \<and> (px = [] \<longrightarrow> \<not> prefix ''0x'' (ds @ rest) \<and> \<not> prefix ''0X'' (ds @ rest))
      \<longrightarrow> parseInt16 (concat ws @ sg @ px @ ds @ rest)
            = (if ds = [] then NaN else numberOf (sg = ''-'') (hexValue ds)))
   \<and> (\<exists>ws sg px ds rest.
        h = concat ws @ sg @ px @ ds @ rest
        \<and> (\<forall>w \<in> set ws. w \<in> set whiteSpace)
        \<and> (sg = [] \<or> sg = ''+'' \<or> sg = ''-'')
        \<and> (px = [] \<or> px = ''0x'' \<or> px = ''0X'')
        \<and> (\<forall>c \<in> set ds. hexDigit c \<noteq> None)
        \<and> (rest = [] \<or> hexDigit (hd rest) = None)
        \<and> leadingSpace (sg @ px @ ds @ rest) = 0
        \<and> (sg = [] \<longrightarrow> \<not> prefix ''+'' (px @ ds @ rest) \<and> \<not> prefix ''-'' (px @ ds @ rest))
        \<and> (px = [] \<longrightarrow> \<not> prefix ''0x'' (ds @ rest) \<and> \<not> prefix ''0X'' (ds @ rest)))
   \<and> (0 < m \<and> m < 2 ^ 53 \<longrightarrow> numberOf negative m = Num (if negative then - int m else int m))
   \<and> parseInt16 ''0x14a34'' = Num 84532
   \<and> parseInt16 ''  -0X1F'' = Num (- 31)
   \<and> parseInt16 ''+abcdef'' = Num 11259375
   \<and> parseInt16 ''hello'' = NaN
   \<and> parseInt16 ''0x'' = NaN
   \<and> parseInt16 ''g1'' = NaN
   \<and> parseInt16 ''-0'' = NegZero
   \<and> parseInt16 ''0x20000000000001'' = Num 9007199254740992
   \<and> parseInt16 (replicate 256 (CHR ''f'')) = Infinity"
proof -
  have A: "a \<noteq> [] \<longrightarrow>
      fst (connectWallet (Inr (Some (a # others))) (Inr h) st)
        = Inr \<lparr>address = a, session_chainId = parseInt16 h\<rparr>
      \<and> fst (btnConnect_try lib (Inr (Some (a # others))) (Inr h) r (Inr b) (Inr v) st) = Inr ()
      \<and> session (btnConnect_onclick lib (Inr (Some (a # others))) (Inr h) r (Inr b) (Inr v) st)
        = Some \<lparr>address = a, session_chainId = parseInt16 h\<rparr>"
    by (simp add: wallet_defs handler_defs query_defs Let_def)
  have B: "(\<forall>w \<in> set ws. w \<in> set whiteSpace)
        \<and> (sg = [] \<or> sg = ''+'' \<or> sg = ''-'')
        \<and> (px = [] \<or> px = ''0x'' \<or> px = ''0X'')
        \<and> (\<forall>c \<in> set ds. hexDigit c \<noteq> None)
        \<and> (rest = [] \<or> hexDigit (hd rest) = None)
        \<and> leadingSpace (sg @ px @ ds @ rest) = 0
        \<and> (sg = [] \<longrightarrow> \<not> prefix ''+'' (px @ ds @ rest) \<and> \<not> prefix ''-'' (px @ ds @ rest))
        \<and> (px = [] \<longrightarrow> \<not> prefix ''0x'' (ds @ rest) \<and> \<not> prefix ''0X'' (ds @ rest))
      \<longrightarrow> parseInt16 (concat ws @ sg @ px @ ds @ rest)
            = (if ds = [] then NaN else numberOf (sg = ''-'') (hexValue ds))"
    using parseInt16_grammar [of ws sg px ds rest] by blast
  note C = parseInt16_decompose [of h]
  have D: "0 < m \<and> m < 2 ^ 53 \<longrightarrow> numberOf negative m = Num (if negative then - int m else int m)"
    using numberOf_safe [of m negative] by blast
  from A B C D parseInt16_examples parseInt16_overflow show ?thesis
    by (intro conjI)
qed

theorem connectWallet_chainId_unvalidated_witness:
  "exampleAddress \<noteq> []
   \<and> fst (btnConnect_try exampleLib (Inr (Some [exampleAddress])) (Inr ''g1'') LeftFirst
            (Inr 1000) (Inr 25) (mount exampleLib)) = Inr ()
   \<and> session (btnConnect_onclick exampleLib (Inr (Some [exampleAddress])) (Inr ''g1'') LeftFirst
                (Inr 1000) (Inr 25) (mount exampleLib))
       = Some \<lparr>address = exampleAddress, session_chainId = NaN\<rparr>
   \<and> parseInt16 (concat ['' '', '' ''] @ ''-'' @ ''0X'' @ ''1F'' @ ''xyz'') = Num (- 31)
   \<and> numberOf True 31 = Num (- 31)"
proof -
  have ne: "exampleAddress \<noteq> []" by (simp add: exampleAddress_def)
  note t1 = connectWallet_chainId_unvalidated [where a = exampleAddress and others = "[]"
      and h = "''g1''" and lib = exampleLib and r = LeftFirst and b = 1000 and v = 25
      and st = "mount exampleLib" and ws = "[]" and sg = "[]" and px = "[]" and ds = "[]"
      and rest = "''g1''" and m = 31 and negative = True]
  note t2 = connectWallet_chainId_unvalidated [where ws = "['' '', '' '']" and sg = "''-''"
      and px = "''0X''" and ds = "''1F''" and rest = "''xyz''"]
  have g: "leadingSpace ([] @ [] @ [] @ ''g1'') = 0" "hexDigit (hd ''g1'') = None"
    by (simp_all add: leadingSpace_def whiteSpace_def hexDigit_def)
  have k: "\<forall>w \<in> set ['' '', '' '']. w \<in> set whiteSpace" "\<forall>c \<in> set ''1F''. hexDigit c \<noteq> None"
    "hexDigit (hd ''xyz'') = None" "leadingSpace (''-'' @ ''0X'' @ ''1F'' @ ''xyz'') = 0"
    "hexValue ''1F'' = 31"
    by (simp_all add: leadingSpace_def whiteSpace_def hexDigit_def hexValue_def)
  from t1 ne g have 1: "fst (btnConnect_try exampleLib (Inr (Some [exampleAddress])) (Inr ''g1'')
      LeftFirst (Inr 1000) (Inr 25) (mount exampleLib)) = Inr ()
    \<and> session (btnConnect_onclick exampleLib (Inr (Some [exampleAddress])) (Inr ''g1'') LeftFirst
                (Inr 1000) (Inr 25) (mount exampleLib))
       = Some \<lparr>address = exampleAddress, session_chainId = NaN\<rparr>
    \<and> numberOf True 31 = Num (- 31)"
    by simp
  from t2 k have 2: "parseInt16 (concat ['' '', '' ''] @ ''-'' @ ''0X'' @ ''1F'' @ ''xyz'')
      = numberOf True 31"
    by simp
  from ne 1 2 show ?thesis by simp
qed

subsection \<open>Toggling and connecting\<close>

text \<open>
  C2, as the specification states it, does not hold: it promises that no Session can be
  observed together with an active network it does not belong to, whatever the timing.
  When the toggle is clicked while the connect handler waits for \<open>eth_requestAccounts\<close>,
  the toggle clears the Session and makes Base Mainnet active, and the connect handler
  then resumes and stores its Session: from the state after \<open>mount\<close>, with a wallet that
  answers chain id \<open>0x14a34\<close>, the run ends with a Session of chain id 84532 while the
  active network is Base Mainnet, chain id 8453.
\<close>

theorem toggle_during_connect_counterexample:
  "session (btnConnect_toggled exampleLib (Inr (Some [exampleAddress])) (Inr ''0x14a34'') LeftFirst
             (Inr 1000) (Inr 25) (mount exampleLib))
     = Some \<lparr>address = exampleAddress, session_chainId = Num 84532\<rparr>
   \<and> active (btnConnect_toggled exampleLib (Inr (Some [exampleAddress])) (Inr ''0x14a34'')
               LeftFirst (Inr 1000) (Inr 25) (mount exampleLib))
     = NETWORKS ! 0
   \<and> chainId (NETWORKS ! 0) = 8453"
proof -
  have ne: "exampleAddress \<noteq> []" by (simp add: exampleAddress_def)
  show ?thesis
    using ne
    by (simp add: btnConnect_toggled_def wallet_defs handler_defs query_defs Let_def mount_def
        other_def NETWORKS_def parseInt16_examples)
qed

text \<open>
  C2, amended. In every state whose active network is a registry entry, the toggle leaves
  no Session and makes the other registry entry the active network. In particular, after
  a connect that has completed successfully (so that a Session is stored) a toggle leaves
  no Session, and the active network is the entry that was not active during the connect.
\<close>

theorem toggle_clears_session:
  "(active st \<in> set NETWORKS \<longrightarrow>
      session (btnToggle_onclick st) = None
      \<and> active (btnToggle_onclick st) = other (active st)
      \<and> active (btnToggle_onclick st) \<in> set NETWORKS
      \<and> active (btnToggle_onclick st) \<noteq> active st)
   \<and> (active st \<in> set NETWORKS
        \<and> fst (btnConnect_try lib accounts chainIdHex r bn bal st) = Inr ()
      \<longrightarrow> session (btnConnect_onclick lib accounts chainIdHex r bn bal st) \<noteq> None
        \<and> session (btnToggle_onclick (btnConnect_onclick lib accounts chainIdHex r bn bal st))
            = None
        \<and> active (btnToggle_onclick (btnConnect_onclick lib accounts chainIdHex r bn bal st))
            = other (active st)
        \<and> other (active st) \<in> set NETWORKS \<and> other (active st) \<noteq> active st)"
proof -
  have t: "session (btnToggle_onclick st') = None \<and> active (btnToggle_onclick st') = other (active st')"
    for st'
    by (simp add: btnToggle_onclick_def render_def Let_def)
  have "n \<in> set NETWORKS \<Longrightarrow> other n \<in> set NETWORKS \<and> other n \<noteq> n" for n
    by (auto simp: NETWORKS_def other_def)
  then have o: "active st \<in> set NETWORKS
    \<Longrightarrow> other (active st) \<in> set NETWORKS \<and> other (active st) \<noteq> active st" .
  have a: "active (btnConnect_onclick lib accounts chainIdHex r bn bal st) = active st"
    by (simp add: wallet_defs handler_defs query_defs Let_def
        split: sum.splits option.splits list.splits prod.splits)
  have s: "fst (btnConnect_try lib accounts chainIdHex r bn bal st) = Inr ()
    \<Longrightarrow> session (btnConnect_onclick lib accounts chainIdHex r bn bal st) \<noteq> None"
    by (auto simp: wallet_defs handler_defs query_defs Let_def
        split: sum.splits option.splits list.splits prod.splits if_splits)
  show ?thesis using t o a s by simp
qed

theorem toggle_clears_session_witness:
  "active (mount exampleLib) \<in> set NETWORKS
   \<and> fst (btnConnect_try exampleLib (Inr (Some [exampleAddress])) (Inr ''0x14a34'') LeftFirst
            (Inr 1000) (Inr 25) (mount exampleLib)) = Inr ()
   \<and> session (btnConnect_onclick exampleLib (Inr (Some [exampleAddress])) (Inr ''0x14a34'') LeftFirst
                (Inr 1000) (Inr 25) (mount exampleLib))
       = Some \<lparr>address = exampleAddress, session_chainId = Num 84532\<rparr>
   \<and> session (btnToggle_onclick
        (btnConnect_onclick exampleLib (Inr (Some [exampleAddress])) (Inr ''0x14a34'') LeftFirst
           (Inr 1000) (Inr 25) (mount exampleLib))) = None
   \<and> active (btnToggle_onclick
        (btnConnect_onclick exampleLib (Inr (Some [exampleAddress])) (Inr ''0x14a34'') LeftFirst
           (Inr 1000) (Inr 25) (mount exampleLib))) = NETWORKS ! 0"
proof -
  have p: "parseInt16 ''0x14a34'' = Num 84532"
    by (simp add: parseInt_defs)
  have ne: "exampleAddress \<noteq> []" by (simp add: exampleAddress_def)
  have m: "active (mount exampleLib) = NETWORKS ! 1"
    by (simp add: mount_def render_def Let_def)
  then have inN: "active (mount exampleLib) \<in> set NETWORKS" by (simp add: NETWORKS_def)
  have ot: "other (NETWORKS ! 1) = NETWORKS ! 0" by (simp add: other_def NETWORKS_def)
  have ok: "fst (btnConnect_try exampleLib (Inr (Some [exampleAddress])) (Inr ''0x14a34'') LeftFirst
            (Inr 1000) (Inr 25) (mount exampleLib)) = Inr ()"
    using ne by (simp add: wallet_defs handler_defs query_defs Let_def mount_def)
  have se: "session (btnConnect_onclick exampleLib (Inr (Some [exampleAddress])) (Inr ''0x14a34'')
              LeftFirst (Inr 1000) (Inr 25) (mount exampleLib))
       = Some \<lparr>address = exampleAddress, session_chainId = Num 84532\<rparr>"
    using ne by (simp add: wallet_defs handler_defs query_defs Let_def mount_def p)
  from toggle_clears_session [where st = "mount exampleLib" and lib = exampleLib
      and accounts = "Inr (Some [exampleAddress])" and chainIdHex = "Inr ''0x14a34''"
      and r = LeftFirst and bn = "Inr 1000" and bal = "Inr 25"] inN ok se m ot
  show ?thesis by simp
qed

end
